theory Spec2Isabelle
  imports Complex_Main "HOL-Library.Word" "HOL-Library.Monad_Syntax"
begin

section \<open>The companion vector types and the assertion macro\<close>

text \<open>
  \<^verbatim>\<open>matrix3.hpp\<close> includes \<^verbatim>\<open>vector2.hpp\<close>, \<^verbatim>\<open>vector3.hpp\<close> and
  \<^verbatim>\<open>utki/debug.hpp\<close>; none of them is among the sources. What the matrix code uses
  of them is written here from the specification's description of the interface: a
  Vector2 with components x and y, a Vector3 with components x, y and z, indexed
  component access \<^verbatim>\<open>[0..2]\<close>, component-wise \<^verbatim>\<open>+\<close>, multiplication by a scalar
  and the dot product.

  The scalar type \<^verbatim>\<open>T\<close> of the template is a type variable. The definitions ask of it
  only the operations they use; each theorem states the algebraic laws it needs as a
  type class. IEEE rounding, infinities and NaN are not modelled.
\<close>

datatype 'a vector2 = vector2 (v2x: 'a) (v2y: 'a)

datatype 'a vector3 = vector3 (v3x: 'a) (v3y: 'a) (v3z: 'a)

text \<open>
  Modelled from the spec: the macro \<^verbatim>\<open>ASSERT\<close> of \<^verbatim>\<open>utki/debug.hpp\<close>. The
  specification calls it a debug-mode assertion that guards a precondition: nothing is
  thrown and no error value is returned. \<open>None\<close> stands for a run whose precondition
  is violated (the assertion stops a debug build, a release build has undefined
  behaviour); \<open>Some\<close> carries the result of a run that goes on.
\<close>

definition ASSERT :: "bool \<Rightarrow> unit option" where
  "ASSERT b = (if b then Some () else None)"

text \<open>
  Modelled from the spec: \<^verbatim>\<open>vector3::operator[]\<close>, indexed component access with
  indices 0 to 2, read and (through the returned reference) write.
\<close>

definition vec_index :: "'a vector3 \<Rightarrow> 32 word \<Rightarrow> 'a option" where
  "vec_index v i = do {
     ASSERT (i < 3);
     Some (if i = 0 then v3x v else if i = 1 then v3y v else v3z v)
   }"

definition vec_assign :: "'a vector3 \<Rightarrow> 32 word \<Rightarrow> 'a \<Rightarrow> 'a vector3 option" where
  "vec_assign v i a = do {
     ASSERT (i < 3);
     Some (if i = 0 then vector3 a (v3y v) (v3z v)
           else if i = 1 then vector3 (v3x v) a (v3z v)
           else vector3 (v3x v) (v3y v) a)
   }"

text \<open>
  Modelled from the spec: the dot product \<^verbatim>\<open>vector3 * vector3\<close>, the product
  \<^verbatim>\<open>vector3 * T\<close> (also behind \<^verbatim>\<open>*=\<close>) and the sum \<^verbatim>\<open>vector3 + vector3\<close>.
\<close>

definition dot :: "'a::{plus,times} vector3 \<Rightarrow> 'a vector3 \<Rightarrow> 'a" where
  "dot a b = v3x a * v3x b + v3y a * v3y b + v3z a * v3z b"

definition vec_mul :: "'a::times vector3 \<Rightarrow> 'a \<Rightarrow> 'a vector3" where
  "vec_mul v n = vector3 (v3x v * n) (v3y v * n) (v3z v * n)"

definition vec_add :: "'a::plus vector3 \<Rightarrow> 'a vector3 \<Rightarrow> 'a vector3" where
  "vec_add a b = vector3 (v3x a + v3x b) (v3y a + v3y b) (v3z a + v3z b)"

text \<open>
  Modelled from the spec: in \<^verbatim>\<open>matrix3 * vector2\<close> a row, which is a
  \<^verbatim>\<open>vector3\<close>, is multiplied by a \<^verbatim>\<open>vector2\<close>. How \<^verbatim>\<open>vector3.hpp\<close> resolves
  that product is not in the sources; the specification calls it the dot product of the
  row with the input vector. The third component the two-component vector is given for
  it is the parameter \<open>w\<close>.
\<close>

definition dot2 :: "'a::{plus,times} \<Rightarrow> 'a vector3 \<Rightarrow> 'a vector2 \<Rightarrow> 'a" where
  "dot2 w a b = dot a (vector3 (v2x b) (v2y b) w)"

section \<open>The matrix\<close>

text \<open>Three columns, stored one after the other.\<close>

record 'a matrix3 =
  c0 :: "'a vector3"
  c1 :: "'a vector3"
  c2 :: "'a vector3"

text \<open>
  \<^verbatim>\<open>operator[]\<close>: \<^verbatim>\<open>ASSERT(col < 3)\<close>, then \<^verbatim>\<open>(&this->c0)[col]\<close>. The columns are
  contiguous, so the pointer reaches \<open>c0\<close>, \<open>c1\<close> and \<open>c2\<close> for 0, 1 and 2.
\<close>

definition op_index :: "'a matrix3 \<Rightarrow> 32 word \<Rightarrow> 'a vector3 option" where
  "op_index this col = do {
     ASSERT (col < 3);
     Some (if col = 0 then c0 this else if col = 1 then c1 this else c2 this)
   }"

definition row :: "'a matrix3 \<Rightarrow> 32 word \<Rightarrow> 'a vector3 option" where
  "row this rowNum = do {
     ASSERT (rowNum < 3);
     a \<leftarrow> vec_index (c0 this) rowNum;
     b \<leftarrow> vec_index (c1 this) rowNum;
     c \<leftarrow> vec_index (c2 this) rowNum;
     Some (vector3 a b c)
   }"

text \<open>\<^verbatim>\<open>operator*(const vector3&)\<close> and \<^verbatim>\<open>operator*(const vector2&)\<close>.\<close>

definition op_mul_vec3 :: "'a::{plus,times} matrix3 \<Rightarrow> 'a vector3 \<Rightarrow> 'a vector3 option" where
  "op_mul_vec3 this vec = do {
     r0 \<leftarrow> row this 0;
     r1 \<leftarrow> row this 1;
     r2 \<leftarrow> row this 2;
     Some (vector3 (dot r0 vec) (dot r1 vec) (dot r2 vec))
   }"

definition op_mul_vec2 :: "'a::{plus,times} \<Rightarrow> 'a matrix3 \<Rightarrow> 'a vector2 \<Rightarrow> 'a vector2 option" where
  "op_mul_vec2 w this vec = do {
     r0 \<leftarrow> row this 0;
     r1 \<leftarrow> row this 1;
     Some (vector2 (dot2 w r0 vec) (dot2 w r1 vec))
   }"

text \<open>
  \<^verbatim>\<open>operator*(const matrix3&)\<close>. Each entry of the result is the expression
  \<^verbatim>\<open>this->row(i) * matr[k]\<close>; the nine of them are computed, then the new matrix is
  built from them.
\<close>

definition row_times_col ::
  "'a::{plus,times} matrix3 \<Rightarrow> 32 word \<Rightarrow> 'a matrix3 \<Rightarrow> 32 word \<Rightarrow> 'a option" where
  "row_times_col this i matr k = do {
     r \<leftarrow> row this i;
     c \<leftarrow> op_index matr k;
     Some (dot r c)
   }"

definition op_mul :: "'a::{plus,times} matrix3 \<Rightarrow> 'a matrix3 \<Rightarrow> 'a matrix3 option" where
  "op_mul this matr = do {
     e00 \<leftarrow> row_times_col this 0 matr 0;
     e10 \<leftarrow> row_times_col this 1 matr 0;
     e20 \<leftarrow> row_times_col this 2 matr 0;
     e01 \<leftarrow> row_times_col this 0 matr 1;
     e11 \<leftarrow> row_times_col this 1 matr 1;
     e21 \<leftarrow> row_times_col this 2 matr 1;
     e02 \<leftarrow> row_times_col this 0 matr 2;
     e12 \<leftarrow> row_times_col this 1 matr 2;
     e22 \<leftarrow> row_times_col this 2 matr 2;
     Some \<lparr> c0 = vector3 e00 e10 e20, c1 = vector3 e01 e11 e21, c2 = vector3 e02 e12 e22 \<rparr>
   }"

section \<open>Methods that change the matrix\<close>

text \<open>
  The methods below assign to \<^verbatim>\<open>*this\<close> and return a reference to it, and their
  matrix arguments are references too, which may alias \<^verbatim>\<open>*this\<close>. A store maps the
  address of each matrix object to its value; a method takes the address \<open>this\<close>, the
  addresses of its reference arguments and the store, and returns the address it
  returns a reference to, with the new store.
\<close>

type_synonym 'a store = "nat \<Rightarrow> 'a matrix3"

text \<open>
  \<^verbatim>\<open>std::swap\<close> on two elements reached through \<^verbatim>\<open>vector3::operator[]\<close>: the
  columns are given by their selector and update functions.
\<close>

definition std_swap ::
  "('a matrix3 \<Rightarrow> 'a vector3) \<Rightarrow> (('a vector3 \<Rightarrow> 'a vector3) \<Rightarrow> 'a matrix3 \<Rightarrow> 'a matrix3) \<Rightarrow> 32 word \<Rightarrow>
   ('a matrix3 \<Rightarrow> 'a vector3) \<Rightarrow> (('a vector3 \<Rightarrow> 'a vector3) \<Rightarrow> 'a matrix3 \<Rightarrow> 'a matrix3) \<Rightarrow> 32 word \<Rightarrow>
   'a matrix3 \<Rightarrow> 'a matrix3 option" where
  "std_swap colA updA i colB updB j m = do {
     a \<leftarrow> vec_index (colA m) i;
     b \<leftarrow> vec_index (colB m) j;
     ka \<leftarrow> vec_assign (colA m) i b;
     let m1 = updA (\<lambda>_. ka) m;
     kb \<leftarrow> vec_assign (colB m1) j a;
     Some (updB (\<lambda>_. kb) m1)
   }"

definition transpose_m :: "nat \<Rightarrow> 'a store \<Rightarrow> (nat \<times> 'a store) option" where
  "transpose_m this s = do {
     m1 \<leftarrow> std_swap c0 c0_update 1 c1 c1_update 0 (s this);
     m2 \<leftarrow> std_swap c0 c0_update 2 c2 c2_update 0 m1;
     m3 \<leftarrow> std_swap c1 c1_update 2 c2 c2_update 1 m2;
     Some (this, s(this := m3))
   }"

text \<open>
  \<^verbatim>\<open>operator*=\<close>, \<^verbatim>\<open>right_mul\<close> and \<^verbatim>\<open>left_mul\<close>: the product is a temporary,
  computed from the store as it is at the call; the copy assignment then writes it.
\<close>

definition op_mul_assign :: "nat \<Rightarrow> nat \<Rightarrow> 'a::{plus,times} store \<Rightarrow> (nat \<times> 'a store) option" where
  "op_mul_assign this matr s = do {
     p \<leftarrow> op_mul (s this) (s matr);
     Some (this, s(this := p))
   }"

definition right_mul :: "nat \<Rightarrow> nat \<Rightarrow> 'a::{plus,times} store \<Rightarrow> (nat \<times> 'a store) option" where
  "right_mul this matr s = op_mul_assign this matr s"

definition left_mul :: "nat \<Rightarrow> nat \<Rightarrow> 'a::{plus,times} store \<Rightarrow> (nat \<times> 'a store) option" where
  "left_mul this matr s = do {
     p \<leftarrow> op_mul (s matr) (s this);
     Some (this, s(this := p))
   }"

text \<open>\<^verbatim>\<open>identity\<close>, \<^verbatim>\<open>scale(T, T)\<close>, \<^verbatim>\<open>scale(const vector2&)\<close>,
  \<^verbatim>\<open>translate(T, T)\<close> and \<^verbatim>\<open>translate(const vector2&)\<close> have no assertion on
  their way.\<close>

definition identity :: "nat \<Rightarrow> 'a::{zero,one} store \<Rightarrow> nat \<times> 'a store" where
  "identity this s =
     (let m = s this;
          m = m\<lparr>c0 := vector3 1 0 0\<rparr>;
          m = m\<lparr>c1 := vector3 0 1 0\<rparr>;
          m = m\<lparr>c2 := vector3 0 0 1\<rparr>
      in (this, s(this := m)))"

definition scale :: "nat \<Rightarrow> 'a::times \<Rightarrow> 'a \<Rightarrow> 'a store \<Rightarrow> nat \<times> 'a store" where
  "scale this x y s =
     (let m = s this;
          m = m\<lparr>c0 := vec_mul (c0 m) x\<rparr>;
          m = m\<lparr>c1 := vec_mul (c1 m) y\<rparr>
      in (this, s(this := m)))"

definition scale_v2 :: "nat \<Rightarrow> 'a::times vector2 \<Rightarrow> 'a store \<Rightarrow> nat \<times> 'a store" where
  "scale_v2 this v s = scale this (v2x v) (v2y v) s"

definition translate :: "nat \<Rightarrow> 'a::{plus,times} \<Rightarrow> 'a \<Rightarrow> 'a store \<Rightarrow> nat \<times> 'a store" where
  "translate this x y s =
     (let m = s this;
          m = m\<lparr>c2 := vec_add (vec_add (vec_mul (c0 m) x) (vec_mul (c1 m) y)) (c2 m)\<rparr>
      in (this, s(this := m)))"

definition translate_v2 :: "nat \<Rightarrow> 'a::{plus,times} vector2 \<Rightarrow> 'a store \<Rightarrow> nat \<times> 'a store" where
  "translate_v2 this t s = translate this (v2x t) (v2y t) s"

text \<open>
  \<^verbatim>\<open>scale(T s)\<close> is \<^verbatim>\<open>return this->scale(s, s, s);\<close>. The class declares
  \<^verbatim>\<open>scale(T, T)\<close>, \<^verbatim>\<open>scale(T)\<close> and \<^verbatim>\<open>scale(const vector2&)\<close> and no
  other member of that name, so the call has no member to resolve to and
  \<^verbatim>\<open>scale(T)\<close> cannot be instantiated. It has no behaviour to embed and no
  definition here.
\<close>

text \<open>
  Modelled from the spec: \<^verbatim>\<open>rotate(T rot)\<close>, which the header declares and does not
  define. The specification: it right-multiplies by a counter-clockwise
  rotation-by-angle matrix about the implicit third axis. The scalars are the reals
  here, with the real sine and cosine.
\<close>

definition rotation_matrix :: "real \<Rightarrow> real matrix3" where
  "rotation_matrix rot =
     \<lparr> c0 = vector3 (cos rot) (sin rot) 0,
       c1 = vector3 (- sin rot) (cos rot) 0,
       c2 = vector3 0 0 1 \<rparr>"

definition rotate_m :: "nat \<Rightarrow> real \<Rightarrow> real store \<Rightarrow> (nat \<times> real store) option" where
  "rotate_m this rot s = do {
     p \<leftarrow> op_mul (s this) (rotation_matrix rot);
     Some (this, s(this := p))
   }"

text \<open>Two integer matrices on which the theorems below are run.\<close>

abbreviation shear_A :: "int matrix3" where
  "shear_A \<equiv> \<lparr> c0 = vector3 1 0 0, c1 = vector3 1 1 0, c2 = vector3 0 0 1 \<rparr>"

abbreviation affine_B :: "int matrix3" where
  "affine_B \<equiv> \<lparr> c0 = vector3 2 0 0, c1 = vector3 0 3 0, c2 = vector3 4 5 1 \<rparr>"

section \<open>Access and failure\<close>

lemma row_0: "row m 0 = Some (vector3 (v3x (c0 m)) (v3x (c1 m)) (v3x (c2 m)))"
  by (simp add: row_def vec_index_def ASSERT_def)

lemma row_1: "row m 1 = Some (vector3 (v3y (c0 m)) (v3y (c1 m)) (v3y (c2 m)))"
  by (simp add: row_def vec_index_def ASSERT_def)

lemma row_2: "row m 2 = Some (vector3 (v3z (c0 m)) (v3z (c1 m)) (v3z (c2 m)))"
  by (simp add: row_def vec_index_def ASSERT_def)

lemma op_index_0: "op_index m 0 = Some (c0 m)"
  by (simp add: op_index_def ASSERT_def)

lemma op_index_1: "op_index m 1 = Some (c1 m)"
  by (simp add: op_index_def ASSERT_def)

lemma op_index_2: "op_index m 2 = Some (c2 m)"
  by (simp add: op_index_def ASSERT_def)

lemmas access_simps = row_0 row_1 row_2 op_index_0 op_index_1 op_index_2

lemma op_mul_vec3_Some:
  "op_mul_vec3 m v = Some (vector3
     (dot (vector3 (v3x (c0 m)) (v3x (c1 m)) (v3x (c2 m))) v)
     (dot (vector3 (v3y (c0 m)) (v3y (c1 m)) (v3y (c2 m))) v)
     (dot (vector3 (v3z (c0 m)) (v3z (c1 m)) (v3z (c2 m))) v))"
  by (simp add: op_mul_vec3_def access_simps)

lemma op_mul_vec2_Some:
  "op_mul_vec2 w m v = Some (vector2
     (dot2 w (vector3 (v3x (c0 m)) (v3x (c1 m)) (v3x (c2 m))) v)
     (dot2 w (vector3 (v3y (c0 m)) (v3y (c1 m)) (v3y (c2 m))) v))"
  by (simp add: op_mul_vec2_def access_simps)

lemma op_mul_Some:
  "op_mul a b = Some \<lparr>
     c0 = vector3 (dot (vector3 (v3x (c0 a)) (v3x (c1 a)) (v3x (c2 a))) (c0 b))
                  (dot (vector3 (v3y (c0 a)) (v3y (c1 a)) (v3y (c2 a))) (c0 b))
                  (dot (vector3 (v3z (c0 a)) (v3z (c1 a)) (v3z (c2 a))) (c0 b)),
     c1 = vector3 (dot (vector3 (v3x (c0 a)) (v3x (c1 a)) (v3x (c2 a))) (c1 b))
                  (dot (vector3 (v3y (c0 a)) (v3y (c1 a)) (v3y (c2 a))) (c1 b))
                  (dot (vector3 (v3z (c0 a)) (v3z (c1 a)) (v3z (c2 a))) (c1 b)),
     c2 = vector3 (dot (vector3 (v3x (c0 a)) (v3x (c1 a)) (v3x (c2 a))) (c2 b))
                  (dot (vector3 (v3y (c0 a)) (v3y (c1 a)) (v3y (c2 a))) (c2 b))
                  (dot (vector3 (v3z (c0 a)) (v3z (c1 a)) (v3z (c2 a))) (c2 b)) \<rparr>"
  by (simp add: op_mul_def row_times_col_def access_simps)

lemma word32_less_3:
  fixes i :: "32 word"
  assumes "i < 3"
  shows "i = 0 \<or> i = 1 \<or> i = 2"
proof -
  from assms have "unat i < 3"
    by (simp add: word_less_nat_alt)
  then consider "unat i = 0" | "unat i = 1" | "unat i = 2"
    by arith
  then show ?thesis
  proof cases
    case 1
    then show ?thesis by (simp add: unat_eq_0)
  next
    case 2
    have "i = word_of_nat (unat i)" by simp
    with 2 show ?thesis by simp
  next
    case 3
    have "i = word_of_nat (unat i)" by simp
    with 3 show ?thesis by simp
  qed
qed

lemma matrix3_update_all:
  "m\<lparr>c0 := a, c1 := b, c2 := c\<rparr> = \<lparr> c0 = a, c1 = b, c2 = c \<rparr>"
  by (cases m) simp

lemma matrix3_update_c2:
  "m\<lparr>c2 := v\<rparr> = \<lparr> c0 = c0 m, c1 = c1 m, c2 = v \<rparr>"
  by (cases m) simp

lemma matrix3_update_c0_c1:
  "m\<lparr>c0 := u, c1 := v\<rparr> = \<lparr> c0 = u, c1 = v, c2 = c2 m \<rparr>"
  by (cases m) simp

lemma op_mul_vec3_defined: "op_mul_vec3 m v \<noteq> None"
  by (simp add: op_mul_vec3_Some)

lemma op_mul_vec2_defined: "op_mul_vec2 w m v \<noteq> None"
  by (simp add: op_mul_vec2_Some)

lemma op_mul_defined: "op_mul a b \<noteq> None"
  by (simp add: op_mul_Some)

lemma std_swap_c0_c1:
  "std_swap c0 c0_update 1 c1 c1_update 0 m =
     Some (m\<lparr>c0 := vector3 (v3x (c0 m)) (v3x (c1 m)) (v3z (c0 m)),
             c1 := vector3 (v3y (c0 m)) (v3y (c1 m)) (v3z (c1 m))\<rparr>)"
  by (simp add: std_swap_def vec_index_def vec_assign_def ASSERT_def)

lemma std_swap_c0_c2:
  "std_swap c0 c0_update 2 c2 c2_update 0 m =
     Some (m\<lparr>c0 := vector3 (v3x (c0 m)) (v3y (c0 m)) (v3x (c2 m)),
             c2 := vector3 (v3z (c0 m)) (v3y (c2 m)) (v3z (c2 m))\<rparr>)"
  by (simp add: std_swap_def vec_index_def vec_assign_def ASSERT_def)

lemma std_swap_c1_c2:
  "std_swap c1 c1_update 2 c2 c2_update 1 m =
     Some (m\<lparr>c1 := vector3 (v3x (c1 m)) (v3y (c1 m)) (v3y (c2 m)),
             c2 := vector3 (v3x (c2 m)) (v3z (c1 m)) (v3z (c2 m))\<rparr>)"
  by (simp add: std_swap_def vec_index_def vec_assign_def ASSERT_def)

lemma transpose_m_Some:
  "transpose_m this s = Some (this, s(this :=
      \<lparr> c0 = vector3 (v3x (c0 (s this))) (v3x (c1 (s this))) (v3x (c2 (s this))),
        c1 = vector3 (v3y (c0 (s this))) (v3y (c1 (s this))) (v3y (c2 (s this))),
        c2 = vector3 (v3z (c0 (s this))) (v3z (c1 (s this))) (v3z (c2 (s this))) \<rparr>))"
  by (simp add: transpose_m_def std_swap_c0_c1 std_swap_c0_c2 std_swap_c1_c2 matrix3_update_all)

lemma op_mul_assign_Some:
  "op_mul_assign this matr s = Some (this, s(this := the (op_mul (s this) (s matr))))"
  by (simp add: op_mul_assign_def op_mul_Some)

lemma left_mul_Some:
  "left_mul this matr s = Some (this, s(this := the (op_mul (s matr) (s this))))"
  by (simp add: left_mul_def op_mul_Some)

text \<open>
  C9. Indexed access is the only place with a precondition. For an index below 3,
  \<^verbatim>\<open>operator[]\<close> returns the column of that number and \<^verbatim>\<open>row\<close> returns the row of
  that number, built from the three columns; for any other index the assertion's
  precondition is violated and there is no result. Every other operation that passes an
  assertion on its way (the three products, \<^verbatim>\<open>transpose\<close>, \<^verbatim>\<open>operator*=\<close>,
  \<^verbatim>\<open>right_mul\<close>, \<^verbatim>\<open>left_mul\<close>) indexes with constants below 3 only and returns a
  result on every input; \<^verbatim>\<open>identity\<close>, \<^verbatim>\<open>scale(T, T)\<close> and \<^verbatim>\<open>translate(T, T)\<close>
  pass no assertion at all.
\<close>

theorem index_precondition:
  fixes m :: "'a matrix3" and A B :: "'b::{plus,times} matrix3"
    and s :: "'a store" and t :: "'b store"
  shows "(col < 3 \<longrightarrow> (\<exists>v. op_index m col = Some v \<and>
            (col = 0 \<and> v = c0 m \<or> col = 1 \<and> v = c1 m \<or> col = 2 \<and> v = c2 m)))
     \<and> (\<not> col < 3 \<longrightarrow> op_index m col = None)
     \<and> (rowNum < 3 \<longrightarrow> (\<exists>v. row m rowNum = Some v \<and>
            (rowNum = 0 \<and> v = vector3 (v3x (c0 m)) (v3x (c1 m)) (v3x (c2 m))
           \<or> rowNum = 1 \<and> v = vector3 (v3y (c0 m)) (v3y (c1 m)) (v3y (c2 m))
           \<or> rowNum = 2 \<and> v = vector3 (v3z (c0 m)) (v3z (c1 m)) (v3z (c2 m)))))
     \<and> (\<not> rowNum < 3 \<longrightarrow> row m rowNum = None)
     \<and> op_mul A B \<noteq> None
     \<and> op_mul_vec3 A v3 \<noteq> None
     \<and> op_mul_vec2 w A v2 \<noteq> None
     \<and> transpose_m this s \<noteq> None
     \<and> op_mul_assign this matr t \<noteq> None
     \<and> right_mul this matr t \<noteq> None
     \<and> left_mul this matr t \<noteq> None"
proof -
  have col_ok: "\<exists>v. op_index m col = Some v \<and>
      (col = 0 \<and> v = c0 m \<or> col = 1 \<and> v = c1 m \<or> col = 2 \<and> v = c2 m)" if "col < 3"
    using word32_less_3 [OF that] by (auto simp: access_simps)
  have col_bad: "op_index m col = None" if "\<not> col < 3"
    using that by (simp add: op_index_def ASSERT_def)
  have row_ok: "\<exists>v. row m rowNum = Some v \<and>
      (rowNum = 0 \<and> v = vector3 (v3x (c0 m)) (v3x (c1 m)) (v3x (c2 m))
     \<or> rowNum = 1 \<and> v = vector3 (v3y (c0 m)) (v3y (c1 m)) (v3y (c2 m))
     \<or> rowNum = 2 \<and> v = vector3 (v3z (c0 m)) (v3z (c1 m)) (v3z (c2 m)))" if "rowNum < 3"
    using word32_less_3 [OF that] by (auto simp: access_simps)
  have row_bad: "row m rowNum = None" if "\<not> rowNum < 3"
    using that by (simp add: row_def ASSERT_def)
  have mutators: "transpose_m this s \<noteq> None" "op_mul_assign this matr t \<noteq> None"
      "right_mul this matr t \<noteq> None" "left_mul this matr t \<noteq> None"
    by (simp_all add: transpose_m_Some op_mul_assign_Some right_mul_def left_mul_Some)
  from col_ok col_bad row_ok row_bad mutators show ?thesis
    using op_mul_defined [of A B] op_mul_vec3_defined [of A v3] op_mul_vec2_defined [of w A v2]
    by blast
qed

theorem index_precondition_witness:
  "(2::32 word) < 3 \<and> \<not> (3::32 word) < 3
   \<and> op_index shear_A 2 = Some (vector3 0 0 1)
   \<and> row shear_A 0 = Some (vector3 1 1 0)
   \<and> op_index shear_A 3 = None \<and> row shear_A 3 = None"
  using index_precondition [of 2 shear_A 0 shear_A shear_A]
    index_precondition [of 3 shear_A 3 shear_A shear_A]
  by (simp add: access_simps)

section \<open>The matrix product\<close>

lemma column_of_product:
  fixes A B :: "'a::{plus,times} matrix3"
  assumes "k < 3" and "op_mul A B = Some P"
  shows "\<exists>cB cP. op_index B k = Some cB \<and> op_index P k = Some cP \<and> op_mul_vec3 A cB = Some cP"
proof -
  from assms(2) have P: "P = the (op_mul A B)" by simp
  from word32_less_3 [OF assms(1)] show ?thesis
    by (auto simp: P op_mul_Some op_mul_vec3_Some access_simps)
qed

lemma entry_of_product:
  fixes A B :: "'a::{plus,times} matrix3"
  assumes "i < 3" and "k < 3" and "op_mul A B = Some P"
  shows "\<exists>r cB cP. row A i = Some r \<and> op_index B k = Some cB \<and> op_index P k = Some cP
           \<and> vec_index cP i = Some (dot r cB)"
proof -
  from assms(3) have P: "P = the (op_mul A B)" by simp
  from word32_less_3 [OF assms(1)] word32_less_3 [OF assms(2)] show ?thesis
    by (auto simp: P op_mul_Some access_simps vec_index_def ASSERT_def)
qed

text \<open>
  C1. The product \<^verbatim>\<open>A * B\<close> always returns a matrix \<open>P\<close>. For each k below 3, column
  k of \<open>P\<close> is \<open>A\<close> applied to column k of \<open>B\<close>, and its entry i is the dot product of
  row i of \<open>A\<close> with column k of \<open>B\<close>. The product is a function of the two operand
  values and returns only the new matrix. \<^verbatim>\<open>operator*=\<close> computes the whole product
  from the store as it is at the call and then assigns it to the left operand, returning
  a reference to it, also when both operands are the same object.
\<close>

theorem op_mul_columns:
  fixes A B :: "'a::{plus,times} matrix3" and s :: "'a store"
  shows "\<exists>P Q. op_mul A B = Some P
     \<and> (\<forall>k. k < 3 \<longrightarrow> (\<exists>cB cP. op_index B k = Some cB \<and> op_index P k = Some cP
            \<and> op_mul_vec3 A cB = Some cP
            \<and> (\<forall>i. i < 3 \<longrightarrow> (\<exists>r. row A i = Some r \<and> vec_index cP i = Some (dot r cB)))))
     \<and> op_mul (s this) (s matr) = Some Q
     \<and> op_mul_assign this matr s = Some (this, s(this := Q))
     \<and> (this = matr \<longrightarrow> op_mul (s this) (s this) = Some Q)"
proof -
  obtain P where P: "op_mul A B = Some P"
    by (simp add: op_mul_Some)
  obtain Q where Q: "op_mul (s this) (s matr) = Some Q"
    by (simp add: op_mul_Some)
  have cols: "\<exists>cB cP. op_index B k = Some cB \<and> op_index P k = Some cP
            \<and> op_mul_vec3 A cB = Some cP
            \<and> (\<forall>i. i < 3 \<longrightarrow> (\<exists>r. row A i = Some r \<and> vec_index cP i = Some (dot r cB)))"
    if k: "k < 3" for k
  proof -
    from column_of_product [OF k P] obtain cB cP where
      c: "op_index B k = Some cB" "op_index P k = Some cP" "op_mul_vec3 A cB = Some cP"
      by blast
    have "\<exists>r. row A i = Some r \<and> vec_index cP i = Some (dot r cB)" if i: "i < 3" for i
      using entry_of_product [OF i k P] c by auto
    with c show ?thesis by blast
  qed
  have "op_mul_assign this matr s = Some (this, s(this := Q))"
    by (simp add: op_mul_assign_def Q)
  with P Q cols show ?thesis by blast
qed

theorem op_mul_columns_witness:
  "(2::32 word) < 3 \<and> (1::32 word) < 3
   \<and> op_mul shear_A affine_B
       = Some \<lparr> c0 = vector3 2 0 0, c1 = vector3 3 3 0, c2 = vector3 9 5 1 \<rparr>
   \<and> op_mul_vec3 shear_A (vector3 4 5 1) = Some (vector3 9 5 1)
   \<and> vec_index (vector3 9 5 (1::int)) 1 = Some 5
   \<and> op_mul_assign 0 0 (\<lambda>_. shear_A)
       = Some (0, (\<lambda>_. shear_A)
                    (0 := \<lparr> c0 = vector3 1 0 0, c1 = vector3 2 1 0, c2 = vector3 0 0 1 \<rparr>))"
  using op_mul_columns [of shear_A affine_B "\<lambda>_. shear_A" 0 0]
  by (simp add: op_mul_Some op_mul_vec3_Some op_mul_assign_def dot_def vec_index_def ASSERT_def)

text \<open>
  C2. \<^verbatim>\<open>right_mul\<close> is \<^verbatim>\<open>operator*=\<close>: after it the left operand holds
  (old this) * matr. After \<^verbatim>\<open>left_mul\<close> it holds matr * (old this). There are a store
  and two matrices in it for which the two results differ.
\<close>

theorem right_mul_left_mul:
  fixes s :: "'a::{plus,times} store"
  shows "right_mul this matr s = op_mul_assign this matr s
     \<and> (\<exists>P. op_mul (s this) (s matr) = Some P \<and> right_mul this matr s = Some (this, s(this := P)))
     \<and> (\<exists>Q. op_mul (s matr) (s this) = Some Q \<and> left_mul this matr s = Some (this, s(this := Q)))
     \<and> (\<exists>(t :: 'b::semiring_1 store) p q. right_mul p q t \<noteq> left_mul p q t)"
proof -
  let ?A = "\<lparr> c0 = vector3 0 0 0, c1 = vector3 1 0 0, c2 = vector3 0 0 (0::'b) \<rparr>"
  let ?B = "\<lparr> c0 = vector3 0 1 0, c1 = vector3 0 0 0, c2 = vector3 0 0 (0::'b) \<rparr>"
  let ?t = "(\<lambda>_. ?B)(0 := ?A) :: 'b store"
  have "right_mul 0 1 ?t \<noteq> left_mul 0 1 ?t"
  proof
    assume "right_mul 0 1 ?t = left_mul 0 1 ?t"
    then have "?t(0 := the (op_mul ?A ?B)) = ?t(0 := the (op_mul ?B ?A))"
      by (simp add: right_mul_def op_mul_assign_Some left_mul_Some)
    then have "the (op_mul ?A ?B) = the (op_mul ?B ?A)"
      by (rule fun_upd_eqD)
    then show False
      by (simp add: op_mul_Some dot_def)
  qed
  then have "\<exists>(t :: 'b store) p q. right_mul p q t \<noteq> left_mul p q t"
    by blast
  moreover have "\<exists>P. op_mul (s this) (s matr) = Some P \<and> right_mul this matr s = Some (this, s(this := P))"
    by (simp add: right_mul_def op_mul_assign_def op_mul_Some)
  moreover have "\<exists>Q. op_mul (s matr) (s this) = Some Q \<and> left_mul this matr s = Some (this, s(this := Q))"
    by (simp add: left_mul_def op_mul_Some)
  ultimately show ?thesis
    by (simp add: right_mul_def)
qed

theorem right_mul_left_mul_witness:
  "right_mul 0 1 ((\<lambda>_. affine_B)(0 := shear_A))
     = Some (0, (\<lambda>_. affine_B)(0 := \<lparr> c0 = vector3 2 0 0, c1 = vector3 3 3 0, c2 = vector3 9 5 1 \<rparr>))
   \<and> left_mul 0 1 ((\<lambda>_. affine_B)(0 := shear_A))
     = Some (0, (\<lambda>_. affine_B)(0 := \<lparr> c0 = vector3 2 0 0, c1 = vector3 2 3 0, c2 = vector3 4 5 1 \<rparr>))"
  using right_mul_left_mul [of 0 1 "(\<lambda>_. affine_B)(0 := shear_A)"]
  by (simp add: right_mul_def op_mul_assign_def left_mul_def op_mul_Some dot_def)

lemma identity_eq:
  "identity this s = (this, s(this := \<lparr> c0 = vector3 1 0 0, c1 = vector3 0 1 0, c2 = vector3 0 0 1 \<rparr>))"
  by (simp add: identity_def matrix3_update_all)

text \<open>
  C10. The matrix that \<^verbatim>\<open>identity()\<close> leaves in the object is a unit of the product on
  both sides, for scalars that form a semiring with one.
\<close>

theorem identity_unit:
  fixes s :: "'a::semiring_1 store" and M :: "'a matrix3"
  shows "op_mul (snd (identity this s) this) M = Some M
     \<and> op_mul M (snd (identity this s) this) = Some M"
proof -
  have M: "M = \<lparr> c0 = vector3 (v3x (c0 M)) (v3y (c0 M)) (v3z (c0 M)),
                 c1 = vector3 (v3x (c1 M)) (v3y (c1 M)) (v3z (c1 M)),
                 c2 = vector3 (v3x (c2 M)) (v3y (c2 M)) (v3z (c2 M)) \<rparr>"
    by simp
  have "op_mul \<lparr> c0 = vector3 1 0 0, c1 = vector3 0 1 0, c2 = vector3 0 0 1 \<rparr> M = Some M"
    by (subst (2) M) (simp add: op_mul_Some dot_def)
  moreover have "op_mul M \<lparr> c0 = vector3 1 0 0, c1 = vector3 0 1 0, c2 = vector3 0 0 1 \<rparr> = Some M"
    by (subst (2) M) (simp add: op_mul_Some dot_def)
  ultimately show ?thesis
    by (simp add: identity_eq)
qed

theorem identity_unit_witness:
  "op_mul (snd (identity 0 (\<lambda>_. shear_A)) 0) affine_B = Some affine_B
   \<and> op_mul affine_B (snd (identity 0 (\<lambda>_. shear_A)) 0) = Some affine_B"
  using identity_unit [of 0 "\<lambda>_. shear_A" affine_B]
  by simp

section \<open>Transpose\<close>

text \<open>
  C8. \<^verbatim>\<open>transpose()\<close> returns a reference to the same object, whose new value has the
  three pairs of elements off the diagonal exchanged and the diagonal as it was: the new
  column k is the old row k. Nothing else in the store changes, and transposing twice
  gives back the store it started from.
\<close>

theorem transpose_m_involution:
  "transpose_m this s = Some (this, s(this :=
      \<lparr> c0 = vector3 (v3x (c0 (s this))) (v3x (c1 (s this))) (v3x (c2 (s this))),
        c1 = vector3 (v3y (c0 (s this))) (v3y (c1 (s this))) (v3y (c2 (s this))),
        c2 = vector3 (v3z (c0 (s this))) (v3z (c1 (s this))) (v3z (c2 (s this))) \<rparr>))
   \<and> (do { (p, s1) \<leftarrow> transpose_m this s; transpose_m p s1 }) = Some (this, s)"
proof -
  have "s(this := \<lparr> c0 = vector3 (v3x (c0 (s this))) (v3y (c0 (s this))) (v3z (c0 (s this))),
        c1 = vector3 (v3x (c1 (s this))) (v3y (c1 (s this))) (v3z (c1 (s this))),
        c2 = vector3 (v3x (c2 (s this))) (v3y (c2 (s this))) (v3z (c2 (s this))) \<rparr>) = s"
    by (rule ext) simp
  then show ?thesis
    by (simp add: transpose_m_Some)
qed

theorem transpose_m_involution_witness:
  "transpose_m 0 (\<lambda>_. affine_B)
     = Some (0, (\<lambda>_. affine_B)(0 := \<lparr> c0 = vector3 2 0 4, c1 = vector3 0 3 5, c2 = vector3 0 0 1 \<rparr>))
   \<and> (do { (p, s1) \<leftarrow> transpose_m 0 (\<lambda>_. affine_B); transpose_m p s1 }) = Some (0, \<lambda>_. affine_B)"
  using transpose_m_involution [of 0 "\<lambda>_. affine_B"]
  by (simp add: transpose_m_Some)

section \<open>The transform builders\<close>

lemma translate_eq:
  "translate this x y s = (this, s(this := \<lparr> c0 = c0 (s this), c1 = c1 (s this),
      c2 = vec_add (vec_add (vec_mul (c0 (s this)) x) (vec_mul (c1 (s this)) y)) (c2 (s this)) \<rparr>))"
  by (simp add: translate_def Let_def matrix3_update_c2)

lemma scale_eq:
  "scale this x y s = (this, s(this := \<lparr> c0 = vec_mul (c0 (s this)) x,
      c1 = vec_mul (c1 (s this)) y, c2 = c2 (s this) \<rparr>))"
  by (simp add: scale_def Let_def matrix3_update_c0_c1)

text \<open>
  C6. \<^verbatim>\<open>identity()\<close> returns a reference to the same object and leaves in it the
  columns (1,0,0), (0,1,0), (0,0,1), whatever the object and the store were before;
  nothing else changes. That matrix maps every three-component vector to itself, and
  every two-component vector to itself whatever third component the product with a row
  gives it. The scalars form a semiring with one.
\<close>

theorem identity_fixed:
  fixes s s' :: "'a::semiring_1 store"
  shows "fst (identity this s) = this
     \<and> snd (identity this s) this = \<lparr> c0 = vector3 1 0 0, c1 = vector3 0 1 0, c2 = vector3 0 0 1 \<rparr>
     \<and> snd (identity this s) this = snd (identity this' s') this'
     \<and> (\<forall>q. q \<noteq> this \<longrightarrow> snd (identity this s) q = s q)
     \<and> op_mul_vec3 (snd (identity this s) this) v = Some v
     \<and> op_mul_vec2 w (snd (identity this s) this) u = Some u"
  by (simp add: identity_eq op_mul_vec3_Some op_mul_vec2_Some dot_def dot2_def)

theorem identity_fixed_witness:
  "snd (identity 0 (\<lambda>_. affine_B)) 0 = \<lparr> c0 = vector3 1 0 0, c1 = vector3 0 1 0, c2 = vector3 0 0 1 \<rparr>
   \<and> snd (identity 0 (\<lambda>_. affine_B)) 1 = affine_B
   \<and> op_mul_vec3 (snd (identity 0 (\<lambda>_. affine_B)) 0) (vector3 4 5 6) = Some (vector3 4 5 6)
   \<and> op_mul_vec2 1 (snd (identity 0 (\<lambda>_. affine_B)) 0) (vector2 4 5) = Some (vector2 4 5)"
  using identity_fixed [of 0 "\<lambda>_. affine_B" 0 "\<lambda>_. affine_B" "vector3 4 5 6" 1 "vector2 4 5"]
  by (simp add: identity_eq)

text \<open>
  C3. \<^verbatim>\<open>translate(x, y)\<close> returns a reference to the same object; columns 0 and 1 are
  as before, column 2 is c0 * x + c1 * y + c2, and nothing else in the store changes.
  Over a semiring with one, identity().translate(1,0).translate(0,1) maps (0,0,1) to
  (1,1,1).
\<close>

theorem translate_column2:
  fixes s :: "'a::{plus,times} store" and t :: "'b::semiring_1 store"
  shows "fst (translate this x y s) = this
     \<and> c0 (snd (translate this x y s) this) = c0 (s this)
     \<and> c1 (snd (translate this x y s) this) = c1 (s this)
     \<and> c2 (snd (translate this x y s) this) =
         vector3 (v3x (c0 (s this)) * x + v3x (c1 (s this)) * y + v3x (c2 (s this)))
                 (v3y (c0 (s this)) * x + v3y (c1 (s this)) * y + v3y (c2 (s this)))
                 (v3z (c0 (s this)) * x + v3z (c1 (s this)) * y + v3z (c2 (s this)))
     \<and> (\<forall>q. q \<noteq> this \<longrightarrow> snd (translate this x y s) q = s q)
     \<and> (let (p, t1) = identity this t; (p, t2) = translate p 1 0 t1; (p, t3) = translate p 0 1 t2
         in op_mul_vec3 (t3 p) (vector3 0 0 1)) = Some (vector3 1 1 1)"
  by (simp add: translate_eq identity_eq vec_add_def vec_mul_def op_mul_vec3_Some dot_def)

theorem translate_column2_witness:
  "snd (translate 0 2 3 (\<lambda>_. shear_A)) 0
     = \<lparr> c0 = vector3 1 0 0, c1 = vector3 1 1 0, c2 = vector3 5 3 1 \<rparr>
   \<and> snd (translate 0 2 3 (\<lambda>_. shear_A)) 1 = shear_A"
  using translate_column2 [of 0 2 3 "\<lambda>_. shear_A"]
  by (simp add: translate_eq vec_add_def vec_mul_def)

text \<open>
  C4. \<^verbatim>\<open>scale(x, y)\<close> returns a reference to the same object; column 0 is multiplied
  by x, column 1 by y, column 2 is as before, and nothing else in the store changes.
  Over a semiring with one, identity().translate(5,5).scale(2,2) maps (0,0,1) to
  (5,5,1).
\<close>

theorem scale_columns:
  fixes s :: "'a::times store" and t :: "'b::semiring_1 store"
  shows "fst (scale this x y s) = this
     \<and> c0 (snd (scale this x y s) this) =
         vector3 (v3x (c0 (s this)) * x) (v3y (c0 (s this)) * x) (v3z (c0 (s this)) * x)
     \<and> c1 (snd (scale this x y s) this) =
         vector3 (v3x (c1 (s this)) * y) (v3y (c1 (s this)) * y) (v3z (c1 (s this)) * y)
     \<and> c2 (snd (scale this x y s) this) = c2 (s this)
     \<and> (\<forall>q. q \<noteq> this \<longrightarrow> snd (scale this x y s) q = s q)
     \<and> (let (p, t1) = identity this t; (p, t2) = translate p 5 5 t1; (p, t3) = scale p 2 2 t2
         in op_mul_vec3 (t3 p) (vector3 0 0 1)) = Some (vector3 5 5 1)"
  by (simp add: scale_eq translate_eq identity_eq vec_add_def vec_mul_def op_mul_vec3_Some dot_def)

theorem scale_columns_witness:
  "snd (scale 0 2 3 (\<lambda>_. affine_B)) 0
     = \<lparr> c0 = vector3 4 0 0, c1 = vector3 0 9 0, c2 = vector3 4 5 1 \<rparr>
   \<and> snd (scale 0 2 3 (\<lambda>_. affine_B)) 1 = affine_B"
  using scale_columns [of 0 2 3 "\<lambda>_. affine_B"]
  by (simp add: scale_eq vec_mul_def)

text \<open>
  C7. With \<^verbatim>\<open>rotate\<close> as the specification describes it, over the reals:
  \<^verbatim>\<open>rotate(rot)\<close> puts (old this) * R into the object and returns a reference to it,
  where R is the rotation matrix of the angle; R turns the point at angle t and distance
  r from the third axis to the point at angle t + rot and the same distance, keeping the
  third component, which is the counter-clockwise direction; and identity().rotate(pi/2)
  maps (1,0,0) to (0,1,0), exactly.
\<close>

theorem rotate_m_counter_clockwise:
  "\<exists>P. op_mul (s this) (rotation_matrix rot) = Some P
     \<and> rotate_m this rot s = Some (this, s(this := P))
     \<and> c0 P = vec_add (vec_mul (c0 (s this)) (cos rot)) (vec_mul (c1 (s this)) (sin rot))
     \<and> c1 P = vec_add (vec_mul (c0 (s this)) (- sin rot)) (vec_mul (c1 (s this)) (cos rot))
     \<and> c2 P = c2 (s this)
     \<and> op_mul_vec3 (rotation_matrix rot) (vector3 (r * cos t) (r * sin t) h)
         = Some (vector3 (r * cos (t + rot)) (r * sin (t + rot)) h)
     \<and> (do { (p, s1) \<leftarrow> Some (identity this s);
              (p, s2) \<leftarrow> rotate_m p (pi / 2) s1;
              op_mul_vec3 (s2 p) (vector3 1 0 0) }) = Some (vector3 0 1 0)"
proof -
  have turn: "op_mul_vec3 (rotation_matrix rot) (vector3 (r * cos t) (r * sin t) h)
         = Some (vector3 (r * cos (t + rot)) (r * sin (t + rot)) h)"
    by (simp add: op_mul_vec3_Some rotation_matrix_def dot_def cos_add sin_add algebra_simps)
  have quarter: "(do { (p, s1) \<leftarrow> Some (identity this s);
              (p, s2) \<leftarrow> rotate_m p (pi / 2) s1;
              op_mul_vec3 (s2 p) (vector3 1 0 0) }) = Some (vector3 0 1 0)"
    by (simp add: identity_eq rotate_m_def op_mul_Some op_mul_vec3_Some rotation_matrix_def dot_def)
  have cols: "c0 (the (op_mul (s this) (rotation_matrix rot)))
        = vec_add (vec_mul (c0 (s this)) (cos rot)) (vec_mul (c1 (s this)) (sin rot))"
      "c1 (the (op_mul (s this) (rotation_matrix rot)))
        = vec_add (vec_mul (c0 (s this)) (- sin rot)) (vec_mul (c1 (s this)) (cos rot))"
      "c2 (the (op_mul (s this) (rotation_matrix rot))) = c2 (s this)"
    by (simp_all add: op_mul_Some rotation_matrix_def dot_def vec_add_def vec_mul_def)
  have "rotate_m this rot s = Some (this, s(this := the (op_mul (s this) (rotation_matrix rot))))"
    by (simp add: rotate_m_def op_mul_Some)
  moreover have "op_mul (s this) (rotation_matrix rot)
      = Some (the (op_mul (s this) (rotation_matrix rot)))"
    by (simp add: op_mul_Some)
  ultimately show ?thesis
    using turn quarter cols by blast
qed

theorem rotate_m_counter_clockwise_witness:
  "op_mul_vec3 (rotation_matrix pi) (vector3 1 0 0) = Some (vector3 (- 1) 0 0)
   \<and> (do { (p, s1) \<leftarrow> Some (identity 0 (\<lambda>_. rotation_matrix 1));
            (p, s2) \<leftarrow> rotate_m p (pi / 2) s1;
            op_mul_vec3 (s2 p) (vector3 1 0 0) }) = Some (vector3 0 1 0)"
  using rotate_m_counter_clockwise [of "\<lambda>_. rotation_matrix 1" 0 pi 1 0 0]
  by auto

end
